theory Spec2Isabelle
  imports Main "HOL-Library.Word"
begin

section \<open>Machine integers and library values\<close>

text \<open>
  Go's \<open>int\<close> is 64 bits wide on the platforms the controller is built for; \<open>int32\<close> and
  \<open>int64\<close> are fixed. All three are read as two's complement (\<open>sint\<close>), comparisons with
  \<open>0\<close> in the source are signed (\<open><s\<close>), and a conversion \<open>int32(x)\<close> keeps the low
  32 bits (\<open>ucast\<close>).
\<close>

type_synonym go_int = "64 word"
type_synonym int32 = "32 word"
type_synonym int64 = "64 word"

text \<open>
  \<open>strconv.Itoa\<close> and the verb \<open>%d\<close> of \<open>fmt.Sprintf\<close> (Go standard library): the decimal
  numeral of a signed integer, with a leading minus sign for a negative one.
\<close>

definition digitChar :: "int \<Rightarrow> char" where
  "digitChar d = ''0123456789'' ! nat d"

function digits :: "int \<Rightarrow> string" where
  "digits n = (if n < 10 then [digitChar n] else digits (n div 10) @ [digitChar (n mod 10)])"
  by pat_completeness auto
termination
  by (relation "measure nat") auto

definition Itoa :: "int \<Rightarrow> string" where
  "Itoa i = (if i < 0 then CHR ''-'' # digits (- i) else digits i)"

text \<open>
  \<open>errors.New\<close> builds an error value from its message. A runtime panic is a value of its
  own: \<open>make\<close> panics on a negative length.
\<close>

datatype error = errors_New string

datatype panic = makeslice_len_out_of_range

definition InvalidElasticConfiguration :: error where
  "InvalidElasticConfiguration =
     errors_New ''max-instances should equal to min-instances when fault_tolerant is disabled''"

section \<open>Kubernetes API types used by the parser\<close>

text \<open>
  \<open>resource.Quantity\<close> is a fixed-point decimal number. The model keeps the number it
  denotes, \<open>unscaled * 10 ^ (- places)\<close>, so that \<open>500m\<close> CPU is \<open>Quantity 5 1\<close> or
  \<open>Quantity 500 3\<close>. A \<open>ResourceList\<close> is a Go map from resource names to quantities; its
  accessors \<open>Cpu()\<close> and \<open>NvidiaGPU()\<close> return the entry of a fixed key, or a zero quantity
  when the map has none.
\<close>

datatype Quantity = Quantity (unscaled: int) (places: nat)

type_synonym ResourceList = "string \<rightharpoonup> Quantity"

definition ResourceCPU :: string where
  "ResourceCPU = ''cpu''"

definition ResourceNvidiaGPU :: string where
  "ResourceNvidiaGPU = ''alpha.kubernetes.io/nvidia-gpu''"

definition Cpu :: "ResourceList \<Rightarrow> Quantity" where
  "Cpu rl = (case rl ResourceCPU of Some q \<Rightarrow> q | None \<Rightarrow> Quantity 0 0)"

definition NvidiaGPU :: "ResourceList \<Rightarrow> Quantity" where
  "NvidiaGPU rl = (case rl ResourceNvidiaGPU of Some q \<Rightarrow> q | None \<Rightarrow> Quantity 0 0)"

record ResourceRequirements =
  Limits :: ResourceList
  Requests :: ResourceList

text \<open>Volumes, volume mounts and pull secrets are only copied from the job to the pod.\<close>

typedecl Volume
typedecl VolumeMount
typedecl LocalObjectReference

record TypeMeta =
  Kind :: string
  APIVersion :: string

record ObjectMeta =
  Name :: string
  Namespace :: string
  Labels :: "string \<rightharpoonup> string"

record ContainerPort =
  Name :: string
  ContainerPort :: int32

record ObjectFieldSelector =
  FieldPath :: string

record EnvVarSource =
  FieldRef :: "ObjectFieldSelector option"

record EnvVar =
  Name :: string
  Value :: string
  ValueFrom :: "EnvVarSource option"

record Container =
  Name :: string
  Image :: string
  ImagePullPolicy :: string
  Command :: "string list"
  VolumeMounts :: "VolumeMount list"
  Ports :: "ContainerPort list"
  Env :: "EnvVar list"
  Resources :: ResourceRequirements

record PodSpec =
  Volumes :: "Volume list"
  Containers :: "Container list"
  ImagePullSecrets :: "LocalObjectReference list"
  HostNetwork :: bool
  RestartPolicy :: string

record PodTemplateSpec =
  ObjectMeta :: ObjectMeta
  Spec :: PodSpec

record ReplicaSetSpec =
  Replicas :: "int32 option"
  Template :: PodTemplateSpec

record ReplicaSet =
  TypeMeta :: TypeMeta
  ObjectMeta :: ObjectMeta
  Spec :: ReplicaSetSpec

record JobSpec =
  Parallelism :: "int32 option"
  Template :: PodTemplateSpec

record Job =
  TypeMeta :: TypeMeta
  ObjectMeta :: ObjectMeta
  Spec :: JobSpec

section \<open>The training job resource\<close>

text \<open>
  The fields of \<open>edlresource.TrainingJob\<close> that the parser reads or writes, with the types
  the parser uses them at (\<open>strconv.Itoa\<close> takes an \<open>int\<close>).
\<close>

record TrainerSpec =
  Entrypoint :: string
  Workspace :: string
  MinInstance :: go_int
  MaxInstance :: go_int
  Resources :: ResourceRequirements

record PserverSpec =
  MinInstance :: go_int
  Resources :: ResourceRequirements

record MasterSpec =
  Resources :: ResourceRequirements

record TrainingJobSpec =
  Image :: string
  Port :: go_int
  PortsNum :: go_int
  PortsNumForSparse :: go_int
  FaultTolerant :: bool
  Passes :: go_int
  Volumes :: "Volume list"
  VolumeMounts :: "VolumeMount list"
  ImagePullSecrets :: "LocalObjectReference list"
  HostNetwork :: bool
  Trainer :: TrainerSpec
  Pserver :: PserverSpec
  Master :: MasterSpec

record TrainingJob =
  ObjectMeta :: ObjectMeta
  Spec :: TrainingJobSpec

text \<open>
  Modelled from the spec: the method \<open>Elastic()\<close> of \<open>TrainingJob\<close> is defined in
  \<open>pkg/resource\<close>, outside the parser's file. The specification gives it as
  "elasticity derived as (min trainer instances \<noteq> max trainer instances)".
\<close>

definition Elastic :: "TrainingJob \<Rightarrow> bool" where
  "Elastic job \<longleftrightarrow>
     TrainerSpec.MinInstance (Trainer (TrainingJob.Spec job))
       \<noteq> MaxInstance (Trainer (TrainingJob.Spec job))"

text \<open>
  Modelled from the spec: the method \<open>NeedGPU()\<close> of \<open>TrainingJob\<close> is defined in
  \<open>pkg/resource\<close>, outside the parser's file. The specification gives it as "the trainer's
  resource request specifies GPU accelerators": the request list has an entry for them.
\<close>

definition NeedGPU :: "TrainingJob \<Rightarrow> bool" where
  "NeedGPU job \<longleftrightarrow>
     Requests (TrainerSpec.Resources (Trainer (TrainingJob.Spec job))) ResourceNvidiaGPU \<noteq> None"

section \<open>Validate\<close>

text \<open>
  \<open>Validate\<close> writes the defaults through the pointer it is given and then returns an error
  or \<open>nil\<close>. The model returns the job as the call leaves it together with the error.
\<close>

definition Validate :: "TrainingJob \<Rightarrow> TrainingJob \<times> error option" where
  "Validate job0 =
    (let s0 = TrainingJob.Spec job0;
         s1 = (if Port s0 = 0 then s0\<lparr>Port := 7164\<rparr> else s0);
         s2 = (if PortsNum s1 = 0 then s1\<lparr>PortsNum := 1\<rparr> else s1);
         s3 = (if PortsNumForSparse s2 = 0 then s2\<lparr>PortsNumForSparse := 1\<rparr> else s2);
         s4 = (if TrainingJobSpec.Image s3 = []
               then s3\<lparr>TrainingJobSpec.Image := ''paddlepaddle/paddlecloud-job''\<rparr> else s3);
         s5 = (if Passes s4 = 0 then s4\<lparr>Passes := 1\<rparr> else s4);
         job = job0\<lparr>TrainingJob.Spec := s5\<rparr>
     in if \<not> FaultTolerant (TrainingJob.Spec job) \<and> Elastic job
        then (job, Some InvalidElasticConfiguration)
        else (job, None))"

section \<open>Ports and environment\<close>

definition imagePullPolicy :: string where
  "imagePullPolicy = ''Always''"

text \<open>
  \<open>podPorts\<close>: the slice is made with \<open>portsTotal\<close> zero entries. \<open>make\<close> panics when
  the length is negative, and also when the slice would take more bytes than the runtime
  allocates at all: \<open>maxAlloc\<close>, which is \<open>2 ^ 48\<close> on 64-bit Linux, at 56 bytes for a
  \<open>v1.ContainerPort\<close> (three strings and two \<open>int32\<close>). The loop then writes entry \<open>i\<close>
  and increments the \<open>int32\<close> port, which wraps around. The index \<open>i\<close> stays between
  \<open>0\<close> and \<open>portsTotal\<close>, so it is a natural number here. Below \<open>maxAlloc\<close> memory is
  unbounded in the model.
\<close>

definition maxAlloc :: int where
  "maxAlloc = 2 ^ 48"

definition sizeofContainerPort :: int where
  "sizeofContainerPort = 56"

function podPorts_loop :: "nat \<Rightarrow> nat \<Rightarrow> int32 \<Rightarrow> ContainerPort list \<Rightarrow> ContainerPort list" where
  "podPorts_loop i portsTotal basePort ports =
     (if i < portsTotal
      then podPorts_loop (i + 1) portsTotal (basePort + 1)
             (ports[i := \<lparr>ContainerPort.Name = ''jobport-'' @ Itoa (sint basePort),
                           ContainerPort = basePort\<rparr>])
      else ports)"
  by pat_completeness auto
termination
  by (relation "measure (\<lambda>(i, portsTotal, basePort, ports). portsTotal - i)") auto

definition podPorts :: "TrainingJob \<Rightarrow> panic + ContainerPort list" where
  "podPorts job =
    (let portsTotal = PortsNum (TrainingJob.Spec job) + PortsNumForSparse (TrainingJob.Spec job)
     in if portsTotal <s 0 \<or> maxAlloc < sizeofContainerPort * sint portsTotal
        then Inl makeslice_len_out_of_range
        else let ports = replicate (nat (sint portsTotal))
                           \<lparr>ContainerPort.Name = [], ContainerPort = 0\<rparr>;
                 basePort = (ucast (Port (TrainingJob.Spec job)) :: int32)
             in Inr (podPorts_loop 0 (nat (sint portsTotal)) basePort ports))"

definition masterPorts :: "TrainingJob \<Rightarrow> ContainerPort list" where
  "masterPorts job =
     [\<lparr>ContainerPort.Name = ''master-port'', ContainerPort = 8080\<rparr>,
      \<lparr>ContainerPort.Name = ''etcd-port'', ContainerPort = 2379\<rparr>]"

text \<open>
  \<open>podEnv\<close>. The method \<open>Value()\<close> of \<open>resource.Quantity\<close> belongs to the Kubernetes
  library, so the model takes it as the parameter \<open>qValue\<close>; the conversion \<open>int(...)\<close>
  of its \<open>int64\<close> result changes nothing at 64 bits.
\<close>

definition trainerCount :: "(Quantity \<Rightarrow> int64) \<Rightarrow> TrainingJob \<Rightarrow> go_int" where
  "trainerCount qValue job =
     (if NeedGPU job
      then qValue (NvidiaGPU (Requests (TrainerSpec.Resources (Trainer (TrainingJob.Spec job)))))
      else qValue (Cpu (Requests (TrainerSpec.Resources (Trainer (TrainingJob.Spec job))))))"

definition literalEnv :: "string \<Rightarrow> string \<Rightarrow> EnvVar" where
  "literalEnv n v = \<lparr>EnvVar.Name = n, Value = v, ValueFrom = None\<rparr>"

definition fieldRefEnv :: "string \<Rightarrow> string \<Rightarrow> EnvVar" where
  "fieldRefEnv n path =
     \<lparr>EnvVar.Name = n, Value = [],
      ValueFrom = Some \<lparr>FieldRef = Some \<lparr>FieldPath = path\<rparr>\<rparr>\<rparr>"

definition podEnv :: "(Quantity \<Rightarrow> int64) \<Rightarrow> TrainingJob \<Rightarrow> EnvVar list" where
  "podEnv qValue job =
    (let needGPU = (if NeedGPU job then ''1'' else ''0'');
         spec = TrainingJob.Spec job
     in [literalEnv ''PADDLE_JOB_NAME'' (ObjectMeta.Name (TrainingJob.ObjectMeta job)),
         literalEnv ''TRAINERS'' (Itoa (sint (TrainerSpec.MinInstance (Trainer spec)))),
         literalEnv ''PSERVERS'' (Itoa (sint (PserverSpec.MinInstance (Pserver spec)))),
         literalEnv ''ENTRY'' (Entrypoint (Trainer spec)),
         literalEnv ''TOPOLOGY'' (Entrypoint (Trainer spec)),
         literalEnv ''TRAINER_PACKAGE'' (Workspace (Trainer spec)),
         literalEnv ''PADDLE_INIT_PORT'' (Itoa (sint (Port spec))),
         literalEnv ''PADDLE_INIT_TRAINER_COUNT'' (Itoa (sint (trainerCount qValue job))),
         literalEnv ''PADDLE_INIT_PORTS_NUM'' (Itoa (sint (PortsNum spec))),
         literalEnv ''PADDLE_INIT_PORTS_NUM_FOR_SPARSE'' (Itoa (sint (PortsNumForSparse spec))),
         literalEnv ''PADDLE_INIT_NUM_GRADIENT_SERVERS''
           (Itoa (sint (TrainerSpec.MinInstance (Trainer spec)))),
         literalEnv ''PADDLE_INIT_NUM_PASSES'' (Itoa (sint (Passes spec))),
         literalEnv ''PADDLE_INIT_USE_GPU'' needGPU,
         literalEnv ''LD_LIBRARY_PATH'' ''/usr/local/cuda/lib64'',
         fieldRefEnv ''NAMESPACE'' ''metadata.namespace'',
         fieldRefEnv ''POD_IP'' ''status.podIP''])"

section \<open>The three builders\<close>

definition pserverCommand :: "TrainingJob \<Rightarrow> string list" where
  "pserverCommand job =
     (if FaultTolerant (TrainingJob.Spec job)
      then [''paddle_k8s'', ''start_new_pserver'']
      else [''paddle_k8s'', ''start_pserver''])"

definition trainerCommand :: "TrainingJob \<Rightarrow> string list" where
  "trainerCommand job =
     (if FaultTolerant (TrainingJob.Spec job)
      then [''paddle_k8s'', ''start_new_trainer'']
      else [''paddle_k8s'', ''start_trainer'', ''v2''])"

definition noResources :: ResourceRequirements where
  "noResources = \<lparr>Limits = Map.empty, Requests = Map.empty\<rparr>"

text \<open>
  A builder evaluates \<open>podPorts\<close> while it fills the container in; when that panics the
  builder returns nothing.
\<close>

definition ParseToPserver :: "(Quantity \<Rightarrow> int64) \<Rightarrow> TrainingJob \<Rightarrow> panic + ReplicaSet" where
  "ParseToPserver qValue job =
    (let replicas = (ucast (PserverSpec.MinInstance (Pserver (TrainingJob.Spec job))) :: int32);
         command = pserverCommand job
     in case podPorts job of
          Inl p \<Rightarrow> Inl p
        | Inr ports \<Rightarrow> Inr
           \<lparr>ReplicaSet.TypeMeta = \<lparr>Kind = ''extensions/v1beta1'', APIVersion = ''ReplicaSet''\<rparr>,
            ReplicaSet.ObjectMeta =
              \<lparr>ObjectMeta.Name = ObjectMeta.Name (TrainingJob.ObjectMeta job) @ ''-pserver'',
               Namespace = Namespace (TrainingJob.ObjectMeta job),
               Labels = Map.empty\<rparr>,
            ReplicaSet.Spec =
              \<lparr>Replicas = Some replicas,
               ReplicaSetSpec.Template =
                 \<lparr>PodTemplateSpec.ObjectMeta =
                    \<lparr>ObjectMeta.Name = [], Namespace = [],
                     Labels = [''paddle-job-pserver'' \<mapsto>
                                 ObjectMeta.Name (TrainingJob.ObjectMeta job)]\<rparr>,
                  PodTemplateSpec.Spec =
                    \<lparr>PodSpec.Volumes = TrainingJobSpec.Volumes (TrainingJob.Spec job),
                     Containers =
                       [\<lparr>Container.Name = ''pserver'',
                         Container.Image = TrainingJobSpec.Image (TrainingJob.Spec job),
                         ImagePullPolicy = [],
                         Command = command,
                         Container.VolumeMounts = [],
                         Ports = ports,
                         Env = podEnv qValue job,
                         Container.Resources =
                           PserverSpec.Resources (Pserver (TrainingJob.Spec job))\<rparr>],
                     PodSpec.ImagePullSecrets =
                       TrainingJobSpec.ImagePullSecrets (TrainingJob.Spec job),
                     PodSpec.HostNetwork = TrainingJobSpec.HostNetwork (TrainingJob.Spec job),
                     RestartPolicy = []\<rparr>\<rparr>\<rparr>\<rparr>)"

definition ParseToTrainer :: "(Quantity \<Rightarrow> int64) \<Rightarrow> TrainingJob \<Rightarrow> panic + Job" where
  "ParseToTrainer qValue job =
    (let replicas = (ucast (TrainerSpec.MinInstance (Trainer (TrainingJob.Spec job))) :: int32);
         command = trainerCommand job
     in case podPorts job of
          Inl p \<Rightarrow> Inl p
        | Inr ports \<Rightarrow> Inr
           \<lparr>Job.TypeMeta = \<lparr>Kind = ''Job'', APIVersion = ''batch/v1''\<rparr>,
            Job.ObjectMeta =
              \<lparr>ObjectMeta.Name = ObjectMeta.Name (TrainingJob.ObjectMeta job) @ ''-trainer'',
               Namespace = Namespace (TrainingJob.ObjectMeta job),
               Labels = Map.empty\<rparr>,
            Job.Spec =
              \<lparr>Parallelism = Some replicas,
               JobSpec.Template =
                 \<lparr>PodTemplateSpec.ObjectMeta =
                    \<lparr>ObjectMeta.Name = [], Namespace = [],
                     Labels = [''paddle-job'' \<mapsto> ObjectMeta.Name (TrainingJob.ObjectMeta job)]\<rparr>,
                  PodTemplateSpec.Spec =
                    \<lparr>PodSpec.Volumes = TrainingJobSpec.Volumes (TrainingJob.Spec job),
                     Containers =
                       [\<lparr>Container.Name = ''trainer'',
                         Container.Image = TrainingJobSpec.Image (TrainingJob.Spec job),
                         ImagePullPolicy = imagePullPolicy,
                         Command = command,
                         Container.VolumeMounts =
                           TrainingJobSpec.VolumeMounts (TrainingJob.Spec job),
                         Ports = ports,
                         Env = podEnv qValue job,
                         Container.Resources =
                           TrainerSpec.Resources (Trainer (TrainingJob.Spec job))\<rparr>],
                     PodSpec.ImagePullSecrets =
                       TrainingJobSpec.ImagePullSecrets (TrainingJob.Spec job),
                     PodSpec.HostNetwork = TrainingJobSpec.HostNetwork (TrainingJob.Spec job),
                     RestartPolicy = ''Never''\<rparr>\<rparr>\<rparr>\<rparr>)"

definition getEtcdPodSpec :: "(Quantity \<Rightarrow> int64) \<Rightarrow> TrainingJob \<Rightarrow> Container" where
  "getEtcdPodSpec qValue job =
    (let command = [''etcd'', ''-name'', ''etcd0'',
           ''-advertise-client-urls'', ''http://$(POD_IP):2379,http://$(POD_IP):4001'',
           ''-listen-client-urls'', ''http://0.0.0.0:2379,http://0.0.0.0:4001'',
           ''-initial-advertise-peer-urls'', ''http://$(POD_IP):2380'',
           ''-listen-peer-urls'', ''http://0.0.0.0:2380'',
           ''-initial-cluster'', ''etcd0=http://$(POD_IP):2380'',
           ''-initial-cluster-state'', ''new'']
     in \<lparr>Container.Name = ''etcd'',
         Container.Image = ''quay.io/coreos/etcd:v3.2.1'',
         ImagePullPolicy = imagePullPolicy,
         Command = command,
         Container.VolumeMounts = [],
         Ports = [],
         Env = podEnv qValue job,
         Container.Resources = noResources\<rparr>)"

definition ParseToMaster :: "(Quantity \<Rightarrow> int64) \<Rightarrow> TrainingJob \<Rightarrow> ReplicaSet" where
  "ParseToMaster qValue job =
    (let replicas = (1 :: int32);
         command = [''paddle_k8s'', ''start_master'']
     in \<lparr>ReplicaSet.TypeMeta = \<lparr>Kind = ''extensions/v1beta1'', APIVersion = ''ReplicaSet''\<rparr>,
         ReplicaSet.ObjectMeta =
           \<lparr>ObjectMeta.Name = ObjectMeta.Name (TrainingJob.ObjectMeta job) @ ''-master'',
            Namespace = Namespace (TrainingJob.ObjectMeta job),
            Labels = Map.empty\<rparr>,
         ReplicaSet.Spec =
           \<lparr>Replicas = Some replicas,
            ReplicaSetSpec.Template =
              \<lparr>PodTemplateSpec.ObjectMeta =
                 \<lparr>ObjectMeta.Name = [], Namespace = [],
                  Labels = [''paddle-job-master'' \<mapsto>
                              ObjectMeta.Name (TrainingJob.ObjectMeta job)]\<rparr>,
               PodTemplateSpec.Spec =
                 \<lparr>PodSpec.Volumes = TrainingJobSpec.Volumes (TrainingJob.Spec job),
                  Containers =
                    [\<lparr>Container.Name = ''master'',
                      Container.Image = TrainingJobSpec.Image (TrainingJob.Spec job),
                      ImagePullPolicy = imagePullPolicy,
                      Command = command,
                      Container.VolumeMounts =
                        TrainingJobSpec.VolumeMounts (TrainingJob.Spec job),
                      Ports = masterPorts job,
                      Env = [],
                      Container.Resources =
                        MasterSpec.Resources (Master (TrainingJob.Spec job))\<rparr>,
                     getEtcdPodSpec qValue job],
                  PodSpec.ImagePullSecrets =
                    TrainingJobSpec.ImagePullSecrets (TrainingJob.Spec job),
                  PodSpec.HostNetwork = TrainingJobSpec.HostNetwork (TrainingJob.Spec job),
                  RestartPolicy = []\<rparr>\<rparr>\<rparr>\<rparr>)"

section \<open>The library's rounding, and the rounding the specification describes\<close>

text \<open>
  \<open>Quantity.Value()\<close> as the Kubernetes library documents it: the value rounded up to the
  nearest integer away from zero (\<open>ScaledValue\<close> "returns the value of
  \<open>ceil(q * 10^scale)\<close>"), and \<open>0\<close> when that integer does not fit \<open>int64\<close>. It is used
  only to instantiate the parameter \<open>qValue\<close>.
\<close>

definition Quantity_Value :: "Quantity \<Rightarrow> int64" where
  "Quantity_Value q =
     (let d = 10 ^ places q;
          v = (if 0 \<le> unscaled q then (unscaled q + d - 1) div d
               else - ((- unscaled q + d - 1) div d))
      in if - (2 ^ 63) \<le> v \<and> v < 2 ^ 63 then word_of_int v else 0)"

text \<open>
  The rounding in the specification's words: "integer part -- fractional CPU requests
  truncate", that is, toward zero.
\<close>

definition truncatedValue :: "Quantity \<Rightarrow> int64" where
  "truncatedValue q =
     (let d = 10 ^ places q
      in if 0 \<le> unscaled q then word_of_int (unscaled q div d)
         else word_of_int (- ((- unscaled q) div d)))"

section \<open>Example jobs\<close>

text \<open>
  The job of the specification's end-to-end scenario, with every defaulted field unset, and
  variants of it.
\<close>

definition wide2 :: TrainingJob where
  "wide2 =
    \<lparr>TrainingJob.ObjectMeta =
       \<lparr>ObjectMeta.Name = ''wide2'', Namespace = ''ns1'', Labels = Map.empty\<rparr>,
     TrainingJob.Spec =
       \<lparr>TrainingJobSpec.Image = [], Port = 0, PortsNum = 0, PortsNumForSparse = 0,
        FaultTolerant = True, Passes = 0,
        TrainingJobSpec.Volumes = [], TrainingJobSpec.VolumeMounts = [],
        TrainingJobSpec.ImagePullSecrets = [], TrainingJobSpec.HostNetwork = False,
        Trainer = \<lparr>Entrypoint = ''python train.py'', Workspace = ''/workspace'',
                   TrainerSpec.MinInstance = 4, MaxInstance = 4,
                   TrainerSpec.Resources = noResources\<rparr>,
        Pserver = \<lparr>PserverSpec.MinInstance = 2, PserverSpec.Resources = noResources\<rparr>,
        Master = \<lparr>MasterSpec.Resources = noResources\<rparr>\<rparr>\<rparr>"

definition withSpec :: "(TrainingJobSpec \<Rightarrow> TrainingJobSpec) \<Rightarrow> TrainingJob \<Rightarrow> TrainingJob" where
  "withSpec f job = job\<lparr>TrainingJob.Spec := f (TrainingJob.Spec job)\<rparr>"

text \<open>The negative scenario: not fault tolerant, trainer instances from 4 to 8.\<close>

definition elasticJob :: TrainingJob where
  "elasticJob =
     withSpec (\<lambda>s. s\<lparr>FaultTolerant := False, Trainer := (Trainer s)\<lparr>MaxInstance := 8\<rparr>\<rparr>) wide2"

text \<open>The same rejected job with every defaulted field set by the user.\<close>

definition explicitJob :: TrainingJob where
  "explicitJob =
     withSpec (\<lambda>s. s\<lparr>TrainingJobSpec.Image := ''example/trainer'', Port := 8000,
                       PortsNum := 2, PortsNumForSparse := 3, Passes := 10\<rparr>) elasticJob"

text \<open>\<open>wide2\<close> as \<open>Validate\<close> leaves it.\<close>

definition wide2Validated :: TrainingJob where
  "wide2Validated =
     withSpec (\<lambda>s. s\<lparr>TrainingJobSpec.Image := ''paddlepaddle/paddlecloud-job'', Port := 7164,
                       PortsNum := 1, PortsNumForSparse := 1, Passes := 1\<rparr>) wide2"

text \<open>Negative numbers in the defaulted fields.\<close>

definition negativeJob :: TrainingJob where
  "negativeJob = withSpec (\<lambda>s. s\<lparr>Port := - 1, PortsNum := - 2, Passes := - 3\<rparr>) wide2"

text \<open>More ports than a slice can hold.\<close>

definition oversizedJob :: TrainingJob where
  "oversizedJob = withSpec (\<lambda>s. s\<lparr>PortsNum := 4611686018427387904\<rparr>) wide2Validated"

text \<open>The largest \<open>int32\<close> as base port.\<close>

definition lastPortJob :: TrainingJob where
  "lastPortJob = withSpec (\<lambda>s. s\<lparr>Port := 2147483647\<rparr>) wide2Validated"

text \<open>A trainer count of \<open>2 ^ 32 + 1\<close>.\<close>

definition hugeJob :: TrainingJob where
  "hugeJob =
     withSpec (\<lambda>s. s\<lparr>Trainer := (Trainer s)\<lparr>TrainerSpec.MinInstance := 4294967297,
                                                 MaxInstance := 4294967297\<rparr>\<rparr>) wide2Validated"

text \<open>A trainer that asks for half a CPU, and one that asks for two GPUs.\<close>

definition halfCpuJob :: TrainingJob where
  "halfCpuJob =
     withSpec (\<lambda>s. s\<lparr>Trainer := (Trainer s)\<lparr>TrainerSpec.Resources :=
        \<lparr>Limits = Map.empty, Requests = [ResourceCPU \<mapsto> Quantity 500 3]\<rparr>\<rparr>\<rparr>) wide2Validated"

definition gpuJob :: TrainingJob where
  "gpuJob =
     withSpec (\<lambda>s. s\<lparr>Trainer := (Trainer s)\<lparr>TrainerSpec.Resources :=
        \<lparr>Limits = Map.empty,
         Requests = [ResourceCPU \<mapsto> Quantity 4 0, ResourceNvidiaGPU \<mapsto> Quantity 2 0]\<rparr>\<rparr>\<rparr>)
       wide2Validated"

section \<open>Auxiliary facts\<close>

declare podPorts_loop.simps [simp del] digits.simps [simp del]

lemma replicate_two: "replicate 2 x = [x, x]"
  by (simp add: numeral_2_eq_2)

lemmas evaluate =
  Itoa_def digits.simps digitChar_def podPorts_def podPorts_loop.simps replicate_two
  Cpu_def NvidiaGPU_def ResourceCPU_def ResourceNvidiaGPU_def NeedGPU_def
  word_sless_alt maxAlloc_def sizeofContainerPort_def

lemmas example_jobs =
  wide2_def withSpec_def elasticJob_def explicitJob_def wide2Validated_def negativeJob_def
  lastPortJob_def hugeJob_def halfCpuJob_def gpuJob_def noResources_def oversizedJob_def

subsection \<open>Machine words\<close>

lemma ucast_sint:
  fixes p :: "64 word"
  shows "(ucast p :: 32 word) = word_of_int (sint p)"
  by (rule bit_word_eqI) (simp add: bit_simps)

lemma sint_int32_add:
  fixes p :: "64 word"
  assumes "- (2 ^ 31) \<le> sint p + int k" "sint p + int k < 2 ^ 31"
  shows "sint ((ucast p :: 32 word) + of_nat k) = sint p + int k"
proof -
  have "(ucast p :: 32 word) + of_nat k = word_of_int (sint p) + word_of_int (int k)"
    by (simp only: ucast_sint of_int_of_nat_eq)
  also have "\<dots> = word_of_int (sint p + int k)"
    by (simp only: of_int_add)
  finally have "sint ((ucast p :: 32 word) + of_nat k)
      = sint (word_of_int (sint p + int k) :: 32 word)"
    by (simp only:)
  also have "\<dots> = (sint p + int k + 2 ^ 31) mod 2 ^ 32 - 2 ^ 31"
    by (simp only: int_word_sint) simp
  also have "\<dots> = sint p + int k"
    using assms by simp
  finally show ?thesis .
qed

lemma sint_int32:
  fixes p :: "64 word"
  assumes "- (2 ^ 31) \<le> sint p" "sint p < 2 ^ 31"
  shows "sint (ucast p :: 32 word) = sint p"
  using sint_int32_add [of p 0] assms by simp

lemma sint_add_in_range:
  fixes a b :: "64 word"
  assumes "- (2 ^ 63) \<le> sint a + sint b" "sint a + sint b < 2 ^ 63"
  shows "sint (a + b) = sint a + sint b"
proof -
  have "sint (a + b) = signed_take_bit 63 (sint a + sint b)"
    by (simp add: sint_word_ariths)
  also have "\<dots> = sint a + sint b"
    using assms by (simp add: signed_take_bit_int_eq_self)
  finally show ?thesis .
qed

subsection \<open>The port loop\<close>

lemma podPorts_loop_length:
  "length (podPorts_loop i n b ports) = length ports"
  by (induction i n b ports rule: podPorts_loop.induct)
     (simp add: podPorts_loop.simps [of i for i])

lemma podPorts_loop_below:
  "k < i \<Longrightarrow> podPorts_loop i n b ports ! k = ports ! k"
proof (induction i n b ports rule: podPorts_loop.induct)
  case (1 i n b ports)
  show ?case
  proof (cases "i < n")
    case True
    with 1 show ?thesis by (simp add: podPorts_loop.simps [of i])
  next
    case False
    then show ?thesis by (simp add: podPorts_loop.simps [of i])
  qed
qed

lemma podPorts_loop_nth:
  "i \<le> k \<Longrightarrow> k < n \<Longrightarrow> n = length ports \<Longrightarrow>
   podPorts_loop i n b ports ! k =
     \<lparr>ContainerPort.Name = ''jobport-'' @ Itoa (sint (b + of_nat (k - i))),
      ContainerPort = b + of_nat (k - i)\<rparr>"
proof (induction i n b ports rule: podPorts_loop.induct)
  case (1 i n b ports)
  let ?p = "\<lparr>ContainerPort.Name = ''jobport-'' @ Itoa (sint b), ContainerPort = b\<rparr>"
  from 1 have lt: "i < n" by simp
  then have unfold: "podPorts_loop i n b ports = podPorts_loop (i + 1) n (b + 1) (ports[i := ?p])"
    by (simp add: podPorts_loop.simps [of i])
  show ?case
  proof (cases "k = i")
    case True
    have "podPorts_loop (i + 1) n (b + 1) (ports[i := ?p]) ! i = (ports[i := ?p]) ! i"
      by (rule podPorts_loop_below) simp
    with True lt 1(4) unfold show ?thesis by simp
  next
    case False
    with 1(2) have le: "i + 1 \<le> k" by simp
    then have "k - i = Suc (k - (i + 1))"
      by simp
    then have shift: "b + 1 + of_nat (k - (i + 1)) = b + of_nat (k - i)"
      by (simp only: of_nat_Suc add.assoc)
    have "podPorts_loop i n b ports ! k = podPorts_loop (i + 1) n (b + 1) (ports[i := ?p]) ! k"
      by (simp only: unfold)
    also from 1 lt le have "\<dots> =
        \<lparr>ContainerPort.Name = ''jobport-'' @ Itoa (sint (b + 1 + of_nat (k - (i + 1)))),
         ContainerPort = b + 1 + of_nat (k - (i + 1))\<rparr>"
      by simp
    finally show ?thesis
      by (simp only: shift)
  qed
qed

lemma sint_positive:
  fixes w :: "64 word"
  shows "w \<noteq> 0 \<longrightarrow> 0 \<le> sint w \<longrightarrow> 1 \<le> sint w \<and> 0 < sint w"
proof (intro impI)
  assume "w \<noteq> 0" and nonneg: "0 \<le> sint w"
  have "sint w \<noteq> 0"
  proof
    assume "sint w = 0"
    then have "sint w = sint (0 :: 64 word)" by simp
    then have "w = 0" by (rule signed_word_eqI)
    with \<open>w \<noteq> 0\<close> show False by simp
  qed
  with nonneg show "1 \<le> sint w \<and> 0 < sint w" by simp
qed

subsection \<open>What Validate returns\<close>

lemma Validate_error:
  "snd (Validate job) =
     (if \<not> FaultTolerant (TrainingJob.Spec job) \<and> Elastic job
      then Some InvalidElasticConfiguration else None)"
  by (simp add: Validate_def Elastic_def Let_def)

lemma Validate_job:
  "fst (Validate job) =
     job\<lparr>TrainingJob.Spec := (TrainingJob.Spec job)
       \<lparr>Port := (if Port (TrainingJob.Spec job) = 0 then 7164 else Port (TrainingJob.Spec job)),
        PortsNum := (if PortsNum (TrainingJob.Spec job) = 0 then 1
                     else PortsNum (TrainingJob.Spec job)),
        PortsNumForSparse := (if PortsNumForSparse (TrainingJob.Spec job) = 0 then 1
                              else PortsNumForSparse (TrainingJob.Spec job)),
        TrainingJobSpec.Image := (if TrainingJobSpec.Image (TrainingJob.Spec job) = []
                                  then ''paddlepaddle/paddlecloud-job''
                                  else TrainingJobSpec.Image (TrainingJob.Spec job)),
        Passes := (if Passes (TrainingJob.Spec job) = 0 then 1
                   else Passes (TrainingJob.Spec job))\<rparr>\<rparr>"
  by (simp add: Validate_def Let_def)

section \<open>Validate: rejection, defaults, invariants\<close>

text \<open>
  Claim C1. \<open>Validate\<close> fails, with the error for an invalid elastic configuration, if and
  only if fault tolerance is disabled and the trainer's minimum and maximum instance counts
  differ; for every other combination it succeeds.
\<close>

theorem Validate_fails_iff:
  "(snd (Validate job) = Some InvalidElasticConfiguration \<longleftrightarrow>
      \<not> FaultTolerant (TrainingJob.Spec job) \<and>
      TrainerSpec.MinInstance (Trainer (TrainingJob.Spec job))
        \<noteq> MaxInstance (Trainer (TrainingJob.Spec job))) \<and>
   (snd (Validate job) = None \<longleftrightarrow>
      \<not> (\<not> FaultTolerant (TrainingJob.Spec job) \<and>
         TrainerSpec.MinInstance (Trainer (TrainingJob.Spec job))
           \<noteq> MaxInstance (Trainer (TrainingJob.Spec job))))"
  by (simp add: Validate_error Elastic_def)

theorem Validate_fails_iff_witness:
  "snd (Validate elasticJob) = Some InvalidElasticConfiguration \<and> snd (Validate wide2) = None"
  using Validate_fails_iff [of elasticJob] Validate_fails_iff [of wide2]
  by (simp add: example_jobs)

text \<open>
  Claim C2. \<open>Validate\<close> sets base port, dense port count, sparse port count, image and pass
  count to their defaults (7164, 1, 1, the default image, 1) exactly when the field holds its
  zero value, and changes nothing else in the job.
\<close>

theorem Validate_defaults:
  "fst (Validate job) =
     job\<lparr>TrainingJob.Spec := (TrainingJob.Spec job)
       \<lparr>Port := (if Port (TrainingJob.Spec job) = 0 then 7164 else Port (TrainingJob.Spec job)),
        PortsNum := (if PortsNum (TrainingJob.Spec job) = 0 then 1
                     else PortsNum (TrainingJob.Spec job)),
        PortsNumForSparse := (if PortsNumForSparse (TrainingJob.Spec job) = 0 then 1
                              else PortsNumForSparse (TrainingJob.Spec job)),
        TrainingJobSpec.Image := (if TrainingJobSpec.Image (TrainingJob.Spec job) = []
                                  then ''paddlepaddle/paddlecloud-job''
                                  else TrainingJobSpec.Image (TrainingJob.Spec job)),
        Passes := (if Passes (TrainingJob.Spec job) = 0 then 1
                   else Passes (TrainingJob.Spec job))\<rparr>\<rparr>"
  by (rule Validate_job)

theorem Validate_defaults_witness:
  "fst (Validate wide2) = wide2Validated \<and> fst (Validate explicitJob) = explicitJob"
  using Validate_defaults [of wide2] Validate_defaults [of explicitJob]
  by (simp add: example_jobs)

text \<open>
  Claim C3, as amended. After a successful \<open>Validate\<close> the base port, both port counts and
  the pass count are different from zero, the image is not empty, and an elastic job is fault
  tolerant. Each of the four numbers is moreover positive when the submitted one was not
  negative: a negative number is not a zero value, so it is kept.
\<close>

theorem Validate_invariants:
  assumes "snd (Validate job) = None"
  shows "Port (TrainingJob.Spec (fst (Validate job))) \<noteq> 0 \<and>
         PortsNum (TrainingJob.Spec (fst (Validate job))) \<noteq> 0 \<and>
         PortsNumForSparse (TrainingJob.Spec (fst (Validate job))) \<noteq> 0 \<and>
         Passes (TrainingJob.Spec (fst (Validate job))) \<noteq> 0 \<and>
         TrainingJobSpec.Image (TrainingJob.Spec (fst (Validate job))) \<noteq> [] \<and>
         (Elastic (fst (Validate job)) \<longrightarrow> FaultTolerant (TrainingJob.Spec (fst (Validate job)))) \<and>
         (0 \<le> sint (Port (TrainingJob.Spec job)) \<longrightarrow>
            0 < sint (Port (TrainingJob.Spec (fst (Validate job))))) \<and>
         (0 \<le> sint (PortsNum (TrainingJob.Spec job)) \<longrightarrow>
            1 \<le> sint (PortsNum (TrainingJob.Spec (fst (Validate job))))) \<and>
         (0 \<le> sint (PortsNumForSparse (TrainingJob.Spec job)) \<longrightarrow>
            1 \<le> sint (PortsNumForSparse (TrainingJob.Spec (fst (Validate job))))) \<and>
         (0 \<le> sint (Passes (TrainingJob.Spec job)) \<longrightarrow>
            1 \<le> sint (Passes (TrainingJob.Spec (fst (Validate job)))))"
proof -
  from assms have "Elastic job \<longrightarrow> FaultTolerant (TrainingJob.Spec job)"
    by (auto simp add: Validate_error split: if_splits)
  then have elastic: "Elastic (fst (Validate job)) \<longrightarrow>
      FaultTolerant (TrainingJob.Spec (fst (Validate job)))"
    by (simp add: Validate_job Elastic_def)
  have nonzero: "Port (TrainingJob.Spec (fst (Validate job))) \<noteq> 0"
      "PortsNum (TrainingJob.Spec (fst (Validate job))) \<noteq> 0"
      "PortsNumForSparse (TrainingJob.Spec (fst (Validate job))) \<noteq> 0"
      "Passes (TrainingJob.Spec (fst (Validate job))) \<noteq> 0"
      "TrainingJobSpec.Image (TrainingJob.Spec (fst (Validate job))) \<noteq> []"
    by (simp_all add: Validate_job)
  have port: "0 \<le> sint (Port (TrainingJob.Spec job)) \<longrightarrow>
      0 < sint (Port (TrainingJob.Spec (fst (Validate job))))"
    using sint_positive [of "Port (TrainingJob.Spec job)"] by (simp add: Validate_job)
  have dense: "0 \<le> sint (PortsNum (TrainingJob.Spec job)) \<longrightarrow>
      1 \<le> sint (PortsNum (TrainingJob.Spec (fst (Validate job))))"
    using sint_positive [of "PortsNum (TrainingJob.Spec job)"] by (simp add: Validate_job)
  have sparse: "0 \<le> sint (PortsNumForSparse (TrainingJob.Spec job)) \<longrightarrow>
      1 \<le> sint (PortsNumForSparse (TrainingJob.Spec (fst (Validate job))))"
    using sint_positive [of "PortsNumForSparse (TrainingJob.Spec job)"]
    by (simp add: Validate_job)
  have passes: "0 \<le> sint (Passes (TrainingJob.Spec job)) \<longrightarrow>
      1 \<le> sint (Passes (TrainingJob.Spec (fst (Validate job))))"
    using sint_positive [of "Passes (TrainingJob.Spec job)"] by (simp add: Validate_job)
  from nonzero elastic port dense sparse passes show ?thesis
    by blast
qed

theorem Validate_invariants_witness:
  "snd (Validate wide2) = None \<and>
   sint (Port (TrainingJob.Spec (fst (Validate wide2)))) = 7164 \<and>
   sint (PortsNum (TrainingJob.Spec (fst (Validate wide2)))) = 1 \<and>
   sint (PortsNumForSparse (TrainingJob.Spec (fst (Validate wide2)))) = 1 \<and>
   sint (Passes (TrainingJob.Spec (fst (Validate wide2)))) = 1 \<and>
   TrainingJobSpec.Image (TrainingJob.Spec (fst (Validate wide2))) \<noteq> [] \<and>
   \<not> Elastic (fst (Validate wide2))"
proof -
  have ok: "snd (Validate wide2) = None"
    by (simp add: Validate_error Elastic_def example_jobs)
  show ?thesis
    using ok Validate_invariants [OF ok]
    by (simp add: Validate_job Elastic_def example_jobs)
qed

text \<open>The job with negative numbers passes validation and keeps them.\<close>

theorem Validate_invariants_counterexample:
  "snd (Validate negativeJob) = None \<and>
   sint (Port (TrainingJob.Spec (fst (Validate negativeJob)))) = - 1 \<and>
   sint (PortsNum (TrainingJob.Spec (fst (Validate negativeJob)))) = - 2 \<and>
   sint (Passes (TrainingJob.Spec (fst (Validate negativeJob)))) = - 3"
  by (simp add: Validate_error Validate_job Elastic_def example_jobs)



section \<open>Port allocation\<close>

text \<open>
  Claim C5, as amended. When the two port counts add up to a number that is not negative, and
  the ports from the base port on stay within \<open>int32\<close>, \<open>podPorts\<close> returns as many ports
  as the counts add up to, numbered consecutively from the base port, each named
  \<open>jobport-\<close> followed by its own number.
\<close>

theorem podPorts_consecutive:
  assumes total: "0 \<le> sint (PortsNum (TrainingJob.Spec job))
                      + sint (PortsNumForSparse (TrainingJob.Spec job))"
    and lower: "- (2 ^ 31) \<le> sint (Port (TrainingJob.Spec job))"
    and upper: "sint (Port (TrainingJob.Spec job))
                  + (sint (PortsNum (TrainingJob.Spec job))
                     + sint (PortsNumForSparse (TrainingJob.Spec job))) \<le> 2 ^ 31"
  shows "\<exists>ports. podPorts job = Inr ports \<and>
           int (length ports) = sint (PortsNum (TrainingJob.Spec job))
                                  + sint (PortsNumForSparse (TrainingJob.Spec job)) \<and>
           (\<forall>i < length ports.
              sint (ContainerPort (ports ! i)) = sint (Port (TrainingJob.Spec job)) + int i \<and>
              ContainerPort.Name (ports ! i)
                = ''jobport-'' @ Itoa (sint (Port (TrainingJob.Spec job)) + int i))"
proof -
  let ?d = "PortsNum (TrainingJob.Spec job)"
  let ?s = "PortsNumForSparse (TrainingJob.Spec job)"
  let ?b = "Port (TrainingJob.Spec job)"
  let ?n = "nat (sint (?d + ?s))"
  let ?ports = "podPorts_loop 0 ?n (ucast ?b)
                  (replicate ?n \<lparr>ContainerPort.Name = [], ContainerPort = 0\<rparr>)"
  from lower upper have "sint ?d + sint ?s \<le> 2 ^ 32" by simp
  with total have sum: "sint (?d + ?s) = sint ?d + sint ?s"
    by (intro sint_add_in_range) simp_all
  with total have "\<not> ?d + ?s <s 0"
    by (simp add: word_sless_alt)
  moreover from sum \<open>sint ?d + sint ?s \<le> 2 ^ 32\<close>
  have "\<not> maxAlloc < sizeofContainerPort * sint (?d + ?s)"
    by (simp add: maxAlloc_def sizeofContainerPort_def)
  ultimately have run: "podPorts job = Inr ?ports"
    by (simp add: podPorts_def Let_def)
  have len: "length ?ports = ?n"
    by (simp add: podPorts_loop_length)
  with sum total have len': "int (length ?ports) = sint ?d + sint ?s"
    by simp
  have "sint (ContainerPort (?ports ! i)) = sint ?b + int i \<and>
        ContainerPort.Name (?ports ! i) = ''jobport-'' @ Itoa (sint ?b + int i)"
    if "i < length ?ports" for i
  proof -
    from that len have i: "i < ?n" by simp
    then have nth: "?ports ! i =
        \<lparr>ContainerPort.Name = ''jobport-'' @ Itoa (sint ((ucast ?b :: int32) + of_nat i)),
         ContainerPort = ucast ?b + of_nat i\<rparr>"
      using podPorts_loop_nth
        [of 0 i ?n "replicate ?n \<lparr>ContainerPort.Name = [], ContainerPort = 0\<rparr>" "ucast ?b"]
      by simp
    from i sum have "int i < sint ?d + sint ?s" by simp
    with lower upper have "sint ((ucast ?b :: int32) + of_nat i) = sint ?b + int i"
      by (intro sint_int32_add) simp_all
    with nth show ?thesis by simp
  qed
  with run len' show ?thesis by blast
qed

theorem podPorts_consecutive_witness:
  "0 \<le> sint (PortsNum (TrainingJob.Spec wide2Validated))
         + sint (PortsNumForSparse (TrainingJob.Spec wide2Validated)) \<and>
   - (2 ^ 31) \<le> sint (Port (TrainingJob.Spec wide2Validated)) \<and>
   sint (Port (TrainingJob.Spec wide2Validated))
     + (sint (PortsNum (TrainingJob.Spec wide2Validated))
        + sint (PortsNumForSparse (TrainingJob.Spec wide2Validated))) \<le> 2 ^ 31 \<and>
   (\<exists>ports. podPorts wide2Validated = Inr ports \<and> length ports = 2 \<and>
      sint (ContainerPort (ports ! 0)) = 7164 \<and>
      ContainerPort.Name (ports ! 0) = ''jobport-7164'' \<and>
      sint (ContainerPort (ports ! 1)) = 7165 \<and>
      ContainerPort.Name (ports ! 1) = ''jobport-7165'')"
proof -
  have h1: "0 \<le> sint (PortsNum (TrainingJob.Spec wide2Validated))
                  + sint (PortsNumForSparse (TrainingJob.Spec wide2Validated))"
    by (simp add: example_jobs)
  have h2: "- (2 ^ 31) \<le> sint (Port (TrainingJob.Spec wide2Validated))"
    by (simp add: example_jobs)
  have h3: "sint (Port (TrainingJob.Spec wide2Validated))
     + (sint (PortsNum (TrainingJob.Spec wide2Validated))
        + sint (PortsNumForSparse (TrainingJob.Spec wide2Validated))) \<le> 2 ^ 31"
    by (simp add: example_jobs)
  from podPorts_consecutive [OF h1 h2 h3] obtain ports where
    ports: "podPorts wide2Validated = Inr ports"
    and len: "int (length ports) = sint (PortsNum (TrainingJob.Spec wide2Validated))
                + sint (PortsNumForSparse (TrainingJob.Spec wide2Validated))"
    and each: "\<forall>i < length ports.
       sint (ContainerPort (ports ! i)) = sint (Port (TrainingJob.Spec wide2Validated)) + int i \<and>
       ContainerPort.Name (ports ! i)
         = ''jobport-'' @ Itoa (sint (Port (TrainingJob.Spec wide2Validated)) + int i)"
    by blast
  from len have two: "length ports = 2"
    by (simp add: example_jobs)
  with each have "sint (ContainerPort (ports ! 0)) = 7164 \<and>
      ContainerPort.Name (ports ! 0) = ''jobport-7164''"
    by (simp add: example_jobs evaluate)
  moreover from two each have "sint (ContainerPort (ports ! 1)) = 7165 \<and>
      ContainerPort.Name (ports ! 1) = ''jobport-7165''"
    by (simp add: example_jobs evaluate)
  ultimately show ?thesis
    using h1 h2 h3 ports two by blast
qed

text \<open>
  With the largest \<open>int32\<close> as base port the second port wraps around to the smallest one,
  and with a negative sum of the counts the slice cannot be made.
\<close>

theorem podPorts_consecutive_counterexample:
  "map_sum id (map (\<lambda>p. (ContainerPort.Name p, sint (ContainerPort p)))) (podPorts lastPortJob) =
     Inr [(''jobport-2147483647'', 2147483647), (''jobport--2147483648'', - 2147483648)] \<and>
   podPorts negativeJob = Inl makeslice_len_out_of_range"
  by (simp add: evaluate example_jobs)

section \<open>Environment\<close>

text \<open>
  Claim C4, as amended. \<open>podEnv\<close> emits exactly one variable
  \<open>PADDLE_INIT_TRAINER_COUNT\<close>; its value is the decimal numeral of \<open>Value()\<close> of the
  requested GPU quantity when the job needs GPUs, and of the requested CPU quantity otherwise.
  \<open>podEnv\<close> rounds nothing itself: a fractional request is rounded as \<open>Value()\<close> rounds it.
\<close>

theorem podEnv_trainerCount:
  "filter (\<lambda>e. EnvVar.Name e = ''PADDLE_INIT_TRAINER_COUNT'') (podEnv qValue job) =
     [\<lparr>EnvVar.Name = ''PADDLE_INIT_TRAINER_COUNT'',
       Value = Itoa (sint
         (if NeedGPU job
          then qValue (NvidiaGPU (Requests (TrainerSpec.Resources (Trainer (TrainingJob.Spec job)))))
          else qValue (Cpu (Requests (TrainerSpec.Resources (Trainer (TrainingJob.Spec job))))))),
       ValueFrom = None\<rparr>]"
  by (simp add: podEnv_def Let_def literalEnv_def fieldRefEnv_def trainerCount_def)

theorem podEnv_trainerCount_witness:
  "map EnvVar.Value
     (filter (\<lambda>e. EnvVar.Name e = ''PADDLE_INIT_TRAINER_COUNT'') (podEnv Quantity_Value gpuJob))
     = [''2''] \<and>
   map EnvVar.Value
     (filter (\<lambda>e. EnvVar.Name e = ''PADDLE_INIT_TRAINER_COUNT'') (podEnv truncatedValue wide2Validated))
     = [''0'']"
  using podEnv_trainerCount [of Quantity_Value gpuJob]
    podEnv_trainerCount [of truncatedValue wide2Validated]
  by (simp add: evaluate example_jobs Quantity_Value_def truncatedValue_def)

text \<open>
  Half a CPU (\<open>500m\<close>) is announced as one trainer, since \<open>Value()\<close> rounds up; truncation
  toward zero would announce none.
\<close>

theorem podEnv_trainerCount_counterexample:
  "\<not> NeedGPU halfCpuJob \<and>
   Cpu (Requests (TrainerSpec.Resources (Trainer (TrainingJob.Spec halfCpuJob)))) = Quantity 500 3 \<and>
   map EnvVar.Value
     (filter (\<lambda>e. EnvVar.Name e = ''PADDLE_INIT_TRAINER_COUNT'') (podEnv Quantity_Value halfCpuJob))
     = [''1''] \<and>
   Itoa (sint (truncatedValue (Quantity 500 3))) = ''0''"
  by (simp add: podEnv_def Let_def literalEnv_def fieldRefEnv_def trainerCount_def
      evaluate example_jobs Quantity_Value_def truncatedValue_def)

text \<open>The sixteen variables come in one fixed order, whatever the job.\<close>

lemma podEnv_names:
  "map EnvVar.Name (podEnv qValue job) =
     [''PADDLE_JOB_NAME'', ''TRAINERS'', ''PSERVERS'', ''ENTRY'', ''TOPOLOGY'',
      ''TRAINER_PACKAGE'', ''PADDLE_INIT_PORT'', ''PADDLE_INIT_TRAINER_COUNT'',
      ''PADDLE_INIT_PORTS_NUM'', ''PADDLE_INIT_PORTS_NUM_FOR_SPARSE'',
      ''PADDLE_INIT_NUM_GRADIENT_SERVERS'', ''PADDLE_INIT_NUM_PASSES'',
      ''PADDLE_INIT_USE_GPU'', ''LD_LIBRARY_PATH'', ''NAMESPACE'', ''POD_IP'']"
  by (simp add: podEnv_def Let_def literalEnv_def fieldRefEnv_def)

section \<open>Builders\<close>

lemma podPorts_total:
  assumes "0 \<le> sint (PortsNum (TrainingJob.Spec job))
                + sint (PortsNumForSparse (TrainingJob.Spec job))"
    and "sint (PortsNum (TrainingJob.Spec job))
           + sint (PortsNumForSparse (TrainingJob.Spec job)) \<le> 2 ^ 32"
  shows "\<exists>ports. podPorts job = Inr ports"
proof -
  from assms
  have "sint (PortsNum (TrainingJob.Spec job) + PortsNumForSparse (TrainingJob.Spec job))
          = sint (PortsNum (TrainingJob.Spec job))
              + sint (PortsNumForSparse (TrainingJob.Spec job))"
    by (intro sint_add_in_range) simp_all
  with assms show ?thesis
    by (simp add: podPorts_def Let_def word_sless_alt maxAlloc_def sizeofContainerPort_def)
qed

lemma podPorts_oversized:
  "podPorts oversizedJob = Inl makeslice_len_out_of_range"
  by (simp add: evaluate example_jobs)

lemma ParseToPserver_wide2Validated:
  "\<exists>rs. ParseToPserver qValue wide2Validated = Inr rs"
  by (simp add: ParseToPserver_def Let_def evaluate example_jobs)

lemma ParseToTrainer_wide2Validated:
  "\<exists>j. ParseToTrainer qValue wide2Validated = Inr j"
  by (simp add: ParseToTrainer_def Let_def evaluate example_jobs)

text \<open>
  Claim C6. The pserver command is \<open>paddle_k8s start_new_pserver\<close> for a fault-tolerant job
  and \<open>paddle_k8s start_pserver\<close> otherwise; the trainer command is
  \<open>paddle_k8s start_new_trainer\<close> for a fault-tolerant job and
  \<open>paddle_k8s start_trainer v2\<close> otherwise. Nothing but the flag enters the choice, and the
  command chosen is the command of the one container of the descriptor that is built; the
  descriptor is built whenever the port counts add up to a number from 0 to \<open>2 ^ 32\<close>.
\<close>

theorem command_selection:
  "pserverCommand job =
     (if FaultTolerant (TrainingJob.Spec job)
      then [''paddle_k8s'', ''start_new_pserver''] else [''paddle_k8s'', ''start_pserver'']) \<and>
   trainerCommand job =
     (if FaultTolerant (TrainingJob.Spec job)
      then [''paddle_k8s'', ''start_new_trainer'']
      else [''paddle_k8s'', ''start_trainer'', ''v2'']) \<and>
   (\<forall>rs. ParseToPserver qValue job = Inr rs \<longrightarrow>
      map Command (Containers (PodTemplateSpec.Spec (ReplicaSetSpec.Template (ReplicaSet.Spec rs))))
        = [pserverCommand job]) \<and>
   (\<forall>j. ParseToTrainer qValue job = Inr j \<longrightarrow>
      map Command (Containers (PodTemplateSpec.Spec (JobSpec.Template (Job.Spec j))))
        = [trainerCommand job]) \<and>
   (0 \<le> sint (PortsNum (TrainingJob.Spec job))
          + sint (PortsNumForSparse (TrainingJob.Spec job)) \<and>
    sint (PortsNum (TrainingJob.Spec job))
      + sint (PortsNumForSparse (TrainingJob.Spec job)) \<le> 2 ^ 32 \<longrightarrow>
      (\<exists>rs. ParseToPserver qValue job = Inr rs) \<and> (\<exists>j. ParseToTrainer qValue job = Inr j))"
proof -
  have built: "(\<exists>rs. ParseToPserver qValue job = Inr rs) \<and> (\<exists>j. ParseToTrainer qValue job = Inr j)"
    if "0 \<le> sint (PortsNum (TrainingJob.Spec job))
              + sint (PortsNumForSparse (TrainingJob.Spec job))"
      and "sint (PortsNum (TrainingJob.Spec job))
             + sint (PortsNumForSparse (TrainingJob.Spec job)) \<le> 2 ^ 32"
  proof -
    from that obtain ports where "podPorts job = Inr ports"
      using podPorts_total by blast
    then show ?thesis
      by (simp add: ParseToPserver_def ParseToTrainer_def Let_def)
  qed
  have "\<forall>rs. ParseToPserver qValue job = Inr rs \<longrightarrow>
      map Command (Containers (PodTemplateSpec.Spec (ReplicaSetSpec.Template (ReplicaSet.Spec rs))))
        = [pserverCommand job]"
    by (auto simp add: ParseToPserver_def Let_def split: sum.splits)
  moreover have "\<forall>j. ParseToTrainer qValue job = Inr j \<longrightarrow>
      map Command (Containers (PodTemplateSpec.Spec (JobSpec.Template (Job.Spec j))))
        = [trainerCommand job]"
    by (auto simp add: ParseToTrainer_def Let_def split: sum.splits)
  ultimately show ?thesis
    using built by (simp add: pserverCommand_def trainerCommand_def)
qed

theorem command_selection_witness:
  "(\<exists>rs. ParseToPserver Quantity_Value wide2Validated = Inr rs \<and>
      map Command (Containers (PodTemplateSpec.Spec (ReplicaSetSpec.Template (ReplicaSet.Spec rs))))
        = [[''paddle_k8s'', ''start_new_pserver'']]) \<and>
   (\<exists>j. ParseToTrainer Quantity_Value wide2Validated = Inr j \<and>
      map Command (Containers (PodTemplateSpec.Spec (JobSpec.Template (Job.Spec j))))
        = [[''paddle_k8s'', ''start_new_trainer'']]) \<and>
   pserverCommand explicitJob = [''paddle_k8s'', ''start_pserver''] \<and>
   trainerCommand explicitJob = [''paddle_k8s'', ''start_trainer'', ''v2'']"
proof -
  obtain rs where rs: "ParseToPserver Quantity_Value wide2Validated = Inr rs"
    using ParseToPserver_wide2Validated by blast
  obtain j where j: "ParseToTrainer Quantity_Value wide2Validated = Inr j"
    using ParseToTrainer_wide2Validated by blast
  have ft: "FaultTolerant (TrainingJob.Spec wide2Validated)"
      "\<not> FaultTolerant (TrainingJob.Spec explicitJob)"
    by (simp_all add: example_jobs)
  from command_selection [of wide2Validated Quantity_Value] rs j ft
  have "map Command (Containers (PodTemplateSpec.Spec (ReplicaSetSpec.Template (ReplicaSet.Spec rs))))
          = [[''paddle_k8s'', ''start_new_pserver'']]"
    and "map Command (Containers (PodTemplateSpec.Spec (JobSpec.Template (Job.Spec j))))
          = [[''paddle_k8s'', ''start_new_trainer'']]"
    by simp_all
  moreover from command_selection [of explicitJob Quantity_Value] ft
  have "pserverCommand explicitJob = [''paddle_k8s'', ''start_pserver'']"
    and "trainerCommand explicitJob = [''paddle_k8s'', ''start_trainer'', ''v2'']"
    by simp_all
  ultimately show ?thesis using rs j by simp
qed

text \<open>
  Claim C7, as amended. When the two port counts add up to a number from 0 to \<open>2 ^ 32\<close>
  (so that the slice of ports can be made) and the trainer's minimum instance count fits
  \<open>int32\<close>, the trainer builder returns a job named
  after the training job with the suffix \<open>-trainer\<close>, with restart policy \<open>Never\<close> and
  with a parallelism equal to the minimum instance count.
\<close>

theorem ParseToTrainer_descriptor:
  assumes total: "0 \<le> sint (PortsNum (TrainingJob.Spec job))
                      + sint (PortsNumForSparse (TrainingJob.Spec job))"
    and bound: "sint (PortsNum (TrainingJob.Spec job))
                  + sint (PortsNumForSparse (TrainingJob.Spec job)) \<le> 2 ^ 32"
    and lower: "- (2 ^ 31) \<le> sint (TrainerSpec.MinInstance (Trainer (TrainingJob.Spec job)))"
    and upper: "sint (TrainerSpec.MinInstance (Trainer (TrainingJob.Spec job))) < 2 ^ 31"
  shows "\<exists>j p. ParseToTrainer qValue job = Inr j \<and>
           ObjectMeta.Name (Job.ObjectMeta j)
             = ObjectMeta.Name (TrainingJob.ObjectMeta job) @ ''-trainer'' \<and>
           RestartPolicy (PodTemplateSpec.Spec (JobSpec.Template (Job.Spec j))) = ''Never'' \<and>
           Parallelism (Job.Spec j) = Some p \<and>
           sint p = sint (TrainerSpec.MinInstance (Trainer (TrainingJob.Spec job)))"
proof -
  from total bound obtain ps where "podPorts job = Inr ps"
    using podPorts_total by blast
  moreover from lower upper
  have "sint (ucast (TrainerSpec.MinInstance (Trainer (TrainingJob.Spec job))) :: int32)
          = sint (TrainerSpec.MinInstance (Trainer (TrainingJob.Spec job)))"
    by (rule sint_int32)
  ultimately show ?thesis
    by (simp add: ParseToTrainer_def Let_def)
qed

theorem ParseToTrainer_descriptor_witness:
  "0 \<le> sint (PortsNum (TrainingJob.Spec wide2Validated))
         + sint (PortsNumForSparse (TrainingJob.Spec wide2Validated)) \<and>
   sint (PortsNum (TrainingJob.Spec wide2Validated))
     + sint (PortsNumForSparse (TrainingJob.Spec wide2Validated)) \<le> 2 ^ 32 \<and>
   - (2 ^ 31) \<le> sint (TrainerSpec.MinInstance (Trainer (TrainingJob.Spec wide2Validated))) \<and>
   sint (TrainerSpec.MinInstance (Trainer (TrainingJob.Spec wide2Validated))) < 2 ^ 31 \<and>
   (\<exists>j p. ParseToTrainer Quantity_Value wide2Validated = Inr j \<and>
      ObjectMeta.Name (Job.ObjectMeta j) = ''wide2-trainer'' \<and>
      RestartPolicy (PodTemplateSpec.Spec (JobSpec.Template (Job.Spec j))) = ''Never'' \<and>
      Parallelism (Job.Spec j) = Some p \<and> sint p = 4)"
proof -
  have h0: "0 \<le> sint (PortsNum (TrainingJob.Spec wide2Validated))
                  + sint (PortsNumForSparse (TrainingJob.Spec wide2Validated))"
    by (simp add: example_jobs)
  have h1: "sint (PortsNum (TrainingJob.Spec wide2Validated))
              + sint (PortsNumForSparse (TrainingJob.Spec wide2Validated)) \<le> 2 ^ 32"
    by (simp add: example_jobs)
  have h2: "- (2 ^ 31) \<le> sint (TrainerSpec.MinInstance (Trainer (TrainingJob.Spec wide2Validated)))"
    by (simp add: example_jobs)
  have h3: "sint (TrainerSpec.MinInstance (Trainer (TrainingJob.Spec wide2Validated))) < 2 ^ 31"
    by (simp add: example_jobs)
  have name: "ObjectMeta.Name (TrainingJob.ObjectMeta wide2Validated) = ''wide2''"
    and min: "sint (TrainerSpec.MinInstance (Trainer (TrainingJob.Spec wide2Validated))) = 4"
    by (simp_all add: example_jobs)
  from ParseToTrainer_descriptor [OF h0 h1 h2 h3, of Quantity_Value] name min
  have "\<exists>j p. ParseToTrainer Quantity_Value wide2Validated = Inr j \<and>
      ObjectMeta.Name (Job.ObjectMeta j) = ''wide2-trainer'' \<and>
      RestartPolicy (PodTemplateSpec.Spec (JobSpec.Template (Job.Spec j))) = ''Never'' \<and>
      Parallelism (Job.Spec j) = Some p \<and> sint p = 4"
    by simp
  with h0 h1 h2 h3 show ?thesis by (intro conjI)
qed

text \<open>
  A minimum instance count of \<open>2 ^ 32 + 1\<close> becomes a parallelism of 1, and with a
  negative sum of the port counts, or one too large for a slice, the builder panics before
  it returns.
\<close>

theorem ParseToTrainer_descriptor_counterexample:
  "sint (TrainerSpec.MinInstance (Trainer (TrainingJob.Spec hugeJob))) = 4294967297 \<and>
   (\<exists>j. ParseToTrainer Quantity_Value hugeJob = Inr j \<and> Parallelism (Job.Spec j) = Some 1) \<and>
   ParseToTrainer Quantity_Value negativeJob = Inl makeslice_len_out_of_range \<and>
   ParseToTrainer Quantity_Value oversizedJob = Inl makeslice_len_out_of_range"
  by (simp add: ParseToTrainer_def Let_def evaluate example_jobs)

text \<open>
  Claim C8. The master builder returns one replica set with one replica and two containers,
  \<open>master\<close> and \<open>etcd\<close>; the ports of the master container are the fixed pair
  \<open>master-port\<close> 8080 and \<open>etcd-port\<close> 2379, whatever the job.
\<close>

theorem ParseToMaster_shape:
  "Replicas (ReplicaSet.Spec (ParseToMaster qValue job)) = Some 1 \<and>
   length (Containers (PodTemplateSpec.Spec
     (ReplicaSetSpec.Template (ReplicaSet.Spec (ParseToMaster qValue job))))) = 2 \<and>
   map Container.Name (Containers (PodTemplateSpec.Spec
     (ReplicaSetSpec.Template (ReplicaSet.Spec (ParseToMaster qValue job))))) = [''master'', ''etcd''] \<and>
   Ports (hd (Containers (PodTemplateSpec.Spec
     (ReplicaSetSpec.Template (ReplicaSet.Spec (ParseToMaster qValue job)))))) =
     [\<lparr>ContainerPort.Name = ''master-port'', ContainerPort = 8080\<rparr>,
      \<lparr>ContainerPort.Name = ''etcd-port'', ContainerPort = 2379\<rparr>] \<and>
   masterPorts job =
     [\<lparr>ContainerPort.Name = ''master-port'', ContainerPort = 8080\<rparr>,
      \<lparr>ContainerPort.Name = ''etcd-port'', ContainerPort = 2379\<rparr>]"
  by (simp add: ParseToMaster_def getEtcdPodSpec_def masterPorts_def Let_def)

end
